theory Spec2Isabelle
  imports Complex_Main "HOL-Library.Word"
begin

unbundle bit_operations_syntax

section \<open>Chain Hockey: the match controller, the entities and the chain\<close>

text \<open>
  A shallow embedding of the game core of chainhockey-mobile: \<^verbatim>\<open>game/config.js\<close>,
  \<^verbatim>\<open>objects/Puck.js\<close>, \<^verbatim>\<open>objects/Striker.js\<close>, \<^verbatim>\<open>objects/Hammer.js\<close>,
  \<^verbatim>\<open>objects/Goal.js\<close>, \<^verbatim>\<open>objects/ChainSystem.js\<close> and \<^verbatim>\<open>scenes/GameScene.js\<close>.
  JavaScript numbers that hold coordinates are modelled as \<open>real\<close> (exact arithmetic in
  place of IEEE doubles), counters as \<open>int\<close>, bit masks as \<open>32 word\<close> (the width on which
  JavaScript's \<^verbatim>\<open>&\<close> and \<^verbatim>\<open>|\<close> work), labels as \<open>string\<close>. Objects are records, and a
  method that mutates \<^verbatim>\<open>this\<close> takes the object and returns the updated one.
\<close>

subsection \<open>game/config.js\<close>

record config =
  GAME_WIDTH :: real
  GAME_HEIGHT :: real
  GRAVITY :: real
  STRIKER_RADIUS :: real
  HAMMER_RADIUS :: real
  PUCK_RADIUS :: real
  CHAIN_SEGMENTS :: nat
  CHAIN_SEGMENT_LENGTH :: real
  CHAIN_STIFFNESS :: real
  CHAIN_DAMPING :: real
  GOAL_WIDTH :: real
  GOAL_HEIGHT :: real
  GAME_DURATION_SECONDS :: int
  MAX_GOALS :: int
  GOAL_DELAY_FRAMES :: int
  PLAYER1_SPAWN_X :: real
  PLAYER2_SPAWN_X :: real
  PLAYER_SPAWN_Y :: real
  CENTER_LINE_X :: real
  CATEGORY_PUCK :: "32 word"
  CATEGORY_STRIKER :: "32 word"
  CATEGORY_HAMMER :: "32 word"
  CATEGORY_WALL :: "32 word"
  CATEGORY_GOAL :: "32 word"
  CATEGORY_CHAIN :: "32 word"

definition GameConfig :: config where
  "GameConfig = \<lparr>
     GAME_WIDTH = 1200, GAME_HEIGHT = 700, GRAVITY = 0,
     STRIKER_RADIUS = 20, HAMMER_RADIUS = 35, PUCK_RADIUS = 15,
     CHAIN_SEGMENTS = 8, CHAIN_SEGMENT_LENGTH = 20,
     CHAIN_STIFFNESS = 7 / 10, CHAIN_DAMPING = 5 / 100,
     GOAL_WIDTH = 20, GOAL_HEIGHT = 200,
     GAME_DURATION_SECONDS = 300, MAX_GOALS = 10, GOAL_DELAY_FRAMES = 60,
     PLAYER1_SPAWN_X = 900, PLAYER2_SPAWN_X = 300, PLAYER_SPAWN_Y = 350,
     CENTER_LINE_X = 600,
     CATEGORY_PUCK = 0x0001, CATEGORY_STRIKER = 0x0002, CATEGORY_HAMMER = 0x0004,
     CATEGORY_WALL = 0x0008, CATEGORY_GOAL = 0x0010, CATEGORY_CHAIN = 0x0020 \<rparr>"

subsection \<open>Bodies of the rigid-body engine\<close>

text \<open>
  A body as the game creates it through \<^verbatim>\<open>scene.matter.add.circle\<close> and
  \<^verbatim>\<open>scene.matter.add.rectangle\<close>. Of the options the source passes, the record keeps
  the label, the shape, \<^verbatim>\<open>isStatic\<close>, \<^verbatim>\<open>isSensor\<close> and the collision filter; a body
  created without \<^verbatim>\<open>isStatic\<close> or \<^verbatim>\<open>isSensor\<close> has them false. Mass, inertia, friction
  and restitution are numbers handed to the engine that no operation of the game reads,
  and are left out. Of the state of a body the record keeps what the source reads and
  writes: \<^verbatim>\<open>position\<close> (\<^verbatim>\<open>setPosition\<close>), the velocity (\<^verbatim>\<open>setVelocity\<close>) and the
  angular velocity (\<^verbatim>\<open>setAngularVelocity\<close>). A vector \<^verbatim>\<open>{x, y}\<close> is a pair.
\<close>

type_synonym vec = "real \<times> real"

record collisionFilter =
  category :: "32 word"
  maskBits :: "32 word"
  group :: int

datatype shape = Circle real | Rectangle real real

record body =
  label :: string
  shape :: shape
  position :: vec
  velocity :: vec
  angularVelocity :: real
  isStatic :: bool
  isSensor :: bool
  filter_of :: collisionFilter

text \<open>
  The engine's defaults for the fields of \<^verbatim>\<open>collisionFilter\<close> that an options object
  leaves out (the walls give a category only): category 1, every mask bit set, group 0.
\<close>

definition defaultFilter :: collisionFilter where
  "defaultFilter = \<lparr> category = 0x0001, maskBits = 0xFFFFFFFF, group = 0 \<rparr>"

definition add_circle :: "real \<Rightarrow> real \<Rightarrow> real \<Rightarrow> string \<Rightarrow> collisionFilter \<Rightarrow> body" where
  "add_circle x y r l f =
     \<lparr> label = l, shape = Circle r, position = (x, y), velocity = (0, 0),
       angularVelocity = 0, isStatic = False, isSensor = False, filter_of = f \<rparr>"

definition add_rectangle ::
  "real \<Rightarrow> real \<Rightarrow> real \<Rightarrow> real \<Rightarrow> string \<Rightarrow> bool \<Rightarrow> bool \<Rightarrow> collisionFilter \<Rightarrow> body" where
  "add_rectangle x y w h l st se f =
     \<lparr> label = l, shape = Rectangle w h, position = (x, y), velocity = (0, 0),
       angularVelocity = 0, isStatic = st, isSensor = se, filter_of = f \<rparr>"

definition setPosition :: "body \<Rightarrow> vec \<Rightarrow> body" where
  "setPosition b p = b\<lparr> position := p \<rparr>"

definition setVelocity :: "body \<Rightarrow> vec \<Rightarrow> body" where
  "setVelocity b v = b\<lparr> velocity := v \<rparr>"

definition setAngularVelocity :: "body \<Rightarrow> real \<Rightarrow> body" where
  "setAngularVelocity b w = b\<lparr> angularVelocity := w \<rparr>"

text \<open>Template literals print a player number or a segment index in decimal.\<close>

function string_of_nat :: "nat \<Rightarrow> string" where
  "string_of_nat n =
     (if n < 10 then [''0123456789'' ! n]
      else string_of_nat (n div 10) @ [''0123456789'' ! (n mod 10)])"
  by pat_completeness auto
termination
  by (relation "measure (\<lambda>n. n)") auto

declare string_of_nat.simps [simp del]

definition string_of_int :: "int \<Rightarrow> string" where
  "string_of_int i =
     (if i < 0 then CHR ''-'' # string_of_nat (nat (- i)) else string_of_nat (nat i))"

text \<open>\<^verbatim>\<open>s.padStart(2, '0')\<close>.\<close>

definition padStart2 :: "string \<Rightarrow> string" where
  "padStart2 s = replicate (2 - length s) CHR ''0'' @ s"

text \<open>\<^verbatim>\<open>Phaser.Math.Clamp(value, min, max)\<close> is \<^verbatim>\<open>Math.max(min, Math.min(max, value))\<close>.\<close>

definition Clamp :: "real \<Rightarrow> real \<Rightarrow> real \<Rightarrow> real" where
  "Clamp v lo hi = max lo (min hi v)"

subsection \<open>objects/Puck.js\<close>

text \<open>
  \<open>puck_resets\<close> is a ghost field: it counts the calls of \<^verbatim>\<open>reset()\<close> and is read by no
  operation.
\<close>

record puck =
  puck_startX :: real
  puck_startY :: real
  puck_body :: body
  puck_resets :: nat

definition Puck_new :: "config \<Rightarrow> real \<Rightarrow> real \<Rightarrow> puck" where
  "Puck_new cfg x y =
     \<lparr> puck_startX = x, puck_startY = y,
       puck_body = add_circle x y (PUCK_RADIUS cfg) ''puck''
         \<lparr> category = CATEGORY_PUCK cfg,
           maskBits = CATEGORY_STRIKER cfg OR CATEGORY_HAMMER cfg OR CATEGORY_WALL cfg,
           group = 0 \<rparr>,
       puck_resets = 0 \<rparr>"

definition Puck_reset :: "puck \<Rightarrow> puck" where
  "Puck_reset p =
     p\<lparr> puck_body :=
          setAngularVelocity
            (setVelocity (setPosition (puck_body p) (puck_startX p, puck_startY p)) (0, 0)) 0,
        puck_resets := Suc (puck_resets p) \<rparr>"

subsection \<open>objects/Striker.js\<close>

record striker =
  striker_playerNum :: nat
  striker_startX :: real
  striker_startY :: real
  striker_minX :: real
  striker_maxX :: real
  striker_minY :: real
  striker_maxY :: real
  striker_body :: body

definition Striker_new :: "config \<Rightarrow> real \<Rightarrow> real \<Rightarrow> nat \<Rightarrow> striker" where
  "Striker_new cfg x y playerNum =
     \<lparr> striker_playerNum = playerNum, striker_startX = x, striker_startY = y,
       striker_minX = (if playerNum = 1 then CENTER_LINE_X cfg + STRIKER_RADIUS cfg
                       else STRIKER_RADIUS cfg),
       striker_maxX = (if playerNum = 1 then GAME_WIDTH cfg - STRIKER_RADIUS cfg
                       else CENTER_LINE_X cfg - STRIKER_RADIUS cfg),
       striker_minY = STRIKER_RADIUS cfg,
       striker_maxY = GAME_HEIGHT cfg - STRIKER_RADIUS cfg,
       striker_body = add_circle x y (STRIKER_RADIUS cfg)
         (''striker_p'' @ string_of_nat playerNum)
         \<lparr> category = CATEGORY_STRIKER cfg,
           maskBits = CATEGORY_PUCK cfg OR CATEGORY_WALL cfg,
           group = 0 \<rparr> \<rparr>"

definition Striker_setPosition :: "striker \<Rightarrow> real \<Rightarrow> real \<Rightarrow> striker" where
  "Striker_setPosition s x y =
     (let constrainedX = Clamp x (striker_minX s) (striker_maxX s);
          constrainedY = Clamp y (striker_minY s) (striker_maxY s)
      in s\<lparr> striker_body := setPosition (striker_body s) (constrainedX, constrainedY) \<rparr>)"

definition Striker_getPosition :: "striker \<Rightarrow> vec" where
  "Striker_getPosition s = position (striker_body s)"

subsection \<open>objects/Hammer.js\<close>

record hammer =
  hammer_playerNum :: nat
  hammer_minX :: real
  hammer_maxX :: real
  hammer_minY :: real
  hammer_maxY :: real
  hammer_body :: body

definition Hammer_new :: "config \<Rightarrow> real \<Rightarrow> real \<Rightarrow> nat \<Rightarrow> hammer" where
  "Hammer_new cfg x y playerNum =
     \<lparr> hammer_playerNum = playerNum,
       hammer_minX = (if playerNum = 1 then CENTER_LINE_X cfg + HAMMER_RADIUS cfg
                      else HAMMER_RADIUS cfg),
       hammer_maxX = (if playerNum = 1 then GAME_WIDTH cfg - HAMMER_RADIUS cfg
                      else CENTER_LINE_X cfg - HAMMER_RADIUS cfg),
       hammer_minY = HAMMER_RADIUS cfg,
       hammer_maxY = GAME_HEIGHT cfg - HAMMER_RADIUS cfg,
       hammer_body = add_circle x y (HAMMER_RADIUS cfg)
         (''hammer_p'' @ string_of_nat playerNum)
         \<lparr> category = CATEGORY_HAMMER cfg,
           maskBits = CATEGORY_PUCK cfg OR CATEGORY_WALL cfg,
           group = 0 \<rparr> \<rparr>"

definition Hammer_update :: "hammer \<Rightarrow> hammer" where
  "Hammer_update h =
     (let pos = position (hammer_body h);
          newX = (if fst pos < hammer_minX h then hammer_minX h
                  else if fst pos > hammer_maxX h then hammer_maxX h else fst pos);
          newY = (if snd pos < hammer_minY h then hammer_minY h
                  else if snd pos > hammer_maxY h then hammer_maxY h else snd pos);
          needsConstraint =
            (fst pos < hammer_minX h \<or> fst pos > hammer_maxX h \<or>
             snd pos < hammer_minY h \<or> snd pos > hammer_maxY h)
      in if needsConstraint
         then h\<lparr> hammer_body := setPosition (hammer_body h) (newX, newY) \<rparr>
         else h)"

definition Hammer_getPosition :: "hammer \<Rightarrow> vec" where
  "Hammer_getPosition h = position (hammer_body h)"

subsection \<open>objects/Goal.js\<close>

record goal =
  goal_side :: string
  goal_x :: real
  goal_y :: real
  goal_width :: real
  goal_height :: real
  goal_body :: body

definition Goal_new :: "config \<Rightarrow> string \<Rightarrow> goal" where
  "Goal_new cfg side =
     (let gx = (if side = ''left'' then GOAL_WIDTH cfg / 2
                else GAME_WIDTH cfg - GOAL_WIDTH cfg / 2);
          gy = GAME_HEIGHT cfg / 2
      in \<lparr> goal_side = side, goal_x = gx, goal_y = gy,
           goal_width = GOAL_WIDTH cfg, goal_height = GOAL_HEIGHT cfg,
           goal_body = add_rectangle gx gy (GOAL_WIDTH cfg) (GOAL_HEIGHT cfg)
             (''goal_'' @ side) True True
             \<lparr> category = CATEGORY_GOAL cfg, maskBits = CATEGORY_PUCK cfg, group = 0 \<rparr> \<rparr>)"

subsection \<open>objects/ChainSystem.js\<close>

text \<open>
  A constraint as \<^verbatim>\<open>scene.matter.add.constraint(bodyA, bodyB, length, stiffness,
  {damping})\<close> receives it. An endpoint is the body passed, or \<open>None\<close> when the
  argument is \<^verbatim>\<open>undefined\<close>, which is what reading an array beyond its end yields.
\<close>

record constraint =
  bodyA :: "body option"
  bodyB :: "body option"
  length_c :: real
  stiffness :: real
  damping :: real

definition add_constraint ::
  "body option \<Rightarrow> body option \<Rightarrow> real \<Rightarrow> real \<Rightarrow> real \<Rightarrow> constraint" where
  "add_constraint a b len st d =
     \<lparr> bodyA = a, bodyB = b, length_c = len, stiffness = st, damping = d \<rparr>"

text \<open>\<^verbatim>\<open>xs[i]\<close> on a JavaScript array.\<close>

definition at_index :: "'a list \<Rightarrow> nat \<Rightarrow> 'a option" where
  "at_index xs i = (if i < length xs then Some (xs ! i) else None)"

record chainSystem =
  chain_playerNum :: nat
  chain_segments :: "body list"
  chain_constraints :: "constraint list"

definition chain_segment :: "config \<Rightarrow> nat \<Rightarrow> vec \<Rightarrow> real \<Rightarrow> real \<Rightarrow> nat \<Rightarrow> body" where
  "chain_segment cfg playerNum strikerPos dx dy i =
     add_circle (fst strikerPos + dx * (real i + 1)) (snd strikerPos + dy * (real i + 1)) 3
       (''chain_segment_p'' @ string_of_nat playerNum @ ''_'' @ string_of_nat i)
       \<lparr> category = CATEGORY_CHAIN cfg, maskBits = 0, group = 0 \<rparr>"

text \<open>
  \<^verbatim>\<open>createChain()\<close>: the first loop pushes the segment bodies, then the constraints
  are pushed in order: striker to \<^verbatim>\<open>segments[0]\<close>, each \<^verbatim>\<open>segments[i]\<close> to
  \<^verbatim>\<open>segments[i + 1]\<close> for \<^verbatim>\<open>i < segments.length - 1\<close>, and
  \<^verbatim>\<open>segments[segments.length - 1]\<close> to the hammer. With no segment at all both array
  reads are out of range (index \<open>0\<close> and index \<open>-1\<close>), hence \<open>None\<close>.
\<close>

definition createChain :: "config \<Rightarrow> nat \<Rightarrow> striker \<Rightarrow> hammer \<Rightarrow> chainSystem" where
  "createChain cfg playerNum st hm =
     (let strikerPos = Striker_getPosition st;
          hammerPos = Hammer_getPosition hm;
          numSegments = CHAIN_SEGMENTS cfg;
          dx = (fst hammerPos - fst strikerPos) / (real numSegments + 1);
          dy = (snd hammerPos - snd strikerPos) / (real numSegments + 1);
          segs = map (chain_segment cfg playerNum strikerPos dx dy) [0..<numSegments];
          link = (\<lambda>a b. add_constraint a b (CHAIN_SEGMENT_LENGTH cfg)
                            (CHAIN_STIFFNESS cfg) (CHAIN_DAMPING cfg));
          firstConstraint = link (Some (striker_body st)) (at_index segs 0);
          between = map (\<lambda>i. link (at_index segs i) (at_index segs (i + 1)))
                        [0..<length segs - 1];
          lastConstraint =
            link (if segs = [] then None else at_index segs (length segs - 1))
                 (Some (hammer_body hm))
      in \<lparr> chain_playerNum = playerNum, chain_segments = segs,
           chain_constraints = [firstConstraint] @ between @ [lastConstraint] \<rparr>)"

subsection \<open>scenes/GameScene.js\<close>

text \<open>A sample of \<^verbatim>\<open>TouchInputManager.getPlayer1Input()\<close> / \<^verbatim>\<open>getPlayer2Input()\<close>.\<close>

record input =
  input_x :: real
  input_y :: real
  active :: bool

text \<open>
  The fields of the scene. \<open>winner\<close> is \<open>None\<close> for \<^verbatim>\<open>null\<close>; \<open>timerEvent\<close> tells
  whether the one-second timer is still installed; \<open>gameOverCalls\<close> counts the delayed
  calls that \<^verbatim>\<open>endGame\<close> has scheduled to start the game-over scene, the notification
  that the match is finished.
\<close>

record game =
  player1Score :: int
  player2Score :: int
  gameTime :: int
  gameOver :: bool
  goalDelay :: int
  winner :: "int option"
  puck :: puck
  striker1 :: striker
  striker2 :: striker
  hammer1 :: hammer
  hammer2 :: hammer
  chain1 :: chainSystem
  chain2 :: chainSystem
  goalLeft :: goal
  goalRight :: goal
  walls :: "body list"
  scoreText :: string
  timerText :: string
  timerEvent :: bool
  gameOverCalls :: nat

definition wall :: "config \<Rightarrow> real \<Rightarrow> real \<Rightarrow> real \<Rightarrow> real \<Rightarrow> string \<Rightarrow> body" where
  "wall cfg x y w h l =
     add_rectangle x y w h l True False (defaultFilter\<lparr> category := CATEGORY_WALL cfg \<rparr>)"

definition createWalls :: "config \<Rightarrow> body list" where
  "createWalls cfg =
     (let goalY = GAME_HEIGHT cfg / 2;
          goalHalfHeight = GOAL_HEIGHT cfg / 2
      in [ wall cfg (GAME_WIDTH cfg / 2) (- 10) (GAME_WIDTH cfg) 20 ''wall_top'',
           wall cfg (GAME_WIDTH cfg / 2) (GAME_HEIGHT cfg + 10) (GAME_WIDTH cfg) 20
             ''wall_bottom'',
           wall cfg (- 10) ((goalY - goalHalfHeight) / 2) 20 (goalY - goalHalfHeight)
             ''wall_left_top'',
           wall cfg (- 10)
             (goalY + goalHalfHeight + (GAME_HEIGHT cfg - goalY - goalHalfHeight) / 2) 20
             (GAME_HEIGHT cfg - goalY - goalHalfHeight) ''wall_left_bottom'',
           wall cfg (GAME_WIDTH cfg + 10) ((goalY - goalHalfHeight) / 2) 20
             (goalY - goalHalfHeight) ''wall_right_top'',
           wall cfg (GAME_WIDTH cfg + 10)
             (goalY + goalHalfHeight + (GAME_HEIGHT cfg - goalY - goalHalfHeight) / 2) 20
             (GAME_HEIGHT cfg - goalY - goalHalfHeight) ''wall_right_bottom'' ])"

definition create :: "config \<Rightarrow> game" where
  "create cfg =
     (let s1 = Striker_new cfg (PLAYER1_SPAWN_X cfg) (PLAYER_SPAWN_Y cfg) 1;
          h1 = Hammer_new cfg (PLAYER1_SPAWN_X cfg + 100) (PLAYER_SPAWN_Y cfg) 1;
          s2 = Striker_new cfg (PLAYER2_SPAWN_X cfg) (PLAYER_SPAWN_Y cfg) 2;
          h2 = Hammer_new cfg (PLAYER2_SPAWN_X cfg - 100) (PLAYER_SPAWN_Y cfg) 2
      in \<lparr> player1Score = 0, player2Score = 0,
           gameTime = GAME_DURATION_SECONDS cfg,
           gameOver = False, goalDelay = 0, winner = None,
           puck = Puck_new cfg (GAME_WIDTH cfg / 2) (GAME_HEIGHT cfg / 2),
           striker1 = s1, striker2 = s2, hammer1 = h1, hammer2 = h2,
           chain1 = createChain cfg 1 s1 h1, chain2 = createChain cfg 2 s2 h2,
           goalLeft = Goal_new cfg ''left'', goalRight = Goal_new cfg ''right'',
           walls = createWalls cfg,
           scoreText = ''0  -  0'', timerText = ''05:00'',
           timerEvent = True, gameOverCalls = 0 \<rparr>)"

definition updateScoreDisplay :: "game \<Rightarrow> game" where
  "updateScoreDisplay s =
     s\<lparr> scoreText :=
          string_of_int (player1Score s) @ ''  -  '' @ string_of_int (player2Score s) \<rparr>"

definition endGame :: "int \<Rightarrow> game \<Rightarrow> game" where
  "endGame w s =
     s\<lparr> gameOver := True, winner := Some w, timerEvent := False,
        gameOverCalls := Suc (gameOverCalls s) \<rparr>"

definition checkWinCondition :: "config \<Rightarrow> game \<Rightarrow> game" where
  "checkWinCondition cfg s =
     (if gameOver s then s
      else if player1Score s \<ge> MAX_GOALS cfg then endGame 1 s
      else if player2Score s \<ge> MAX_GOALS cfg then endGame 2 s
      else if gameTime s \<le> 0 then
        (if player1Score s > player2Score s then endGame 1 s
         else if player2Score s > player1Score s then endGame 2 s
         else endGame 0 s)
      else s)"

definition onGoalScored :: "config \<Rightarrow> string \<Rightarrow> game \<Rightarrow> game" where
  "onGoalScored cfg side s =
     (if goalDelay s > 0 \<or> gameOver s then s
      else
        (let s1 = (if side = ''left'' then s\<lparr> player2Score := player2Score s + 1 \<rparr>
                   else s\<lparr> player1Score := player1Score s + 1 \<rparr>);
             s2 = updateScoreDisplay s1;
             s3 = s2\<lparr> puck := Puck_reset (puck s2) \<rparr>;
             s4 = s3\<lparr> goalDelay := GOAL_DELAY_FRAMES cfg \<rparr>
         in checkWinCondition cfg s4))"

text \<open>
  \<^verbatim>\<open>updateTimer()\<close>. The text is formatted from \<open>gameTime\<close> after the clamp at 0, so
  \<^verbatim>\<open>Math.floor(gameTime / 60)\<close> and \<^verbatim>\<open>gameTime % 60\<close> work on a number that is not
  negative.
\<close>

definition updateTimer :: "config \<Rightarrow> game \<Rightarrow> game" where
  "updateTimer cfg s =
     (if gameOver s then s
      else
        (let s1 = s\<lparr> gameTime := gameTime s - 1 \<rparr>;
             s2 = (if gameTime s1 \<le> 0 then checkWinCondition cfg (s1\<lparr> gameTime := 0 \<rparr>)
                   else s1);
             minutes = gameTime s2 div 60;
             seconds = gameTime s2 mod 60
         in s2\<lparr> timerText :=
                  padStart2 (string_of_int minutes) @ '':'' @ padStart2 (string_of_int seconds) \<rparr>))"

text \<open>
  \<^verbatim>\<open>update()\<close>, the per-frame callback of the scene; the two input samples are what
  \<^verbatim>\<open>touchInput.getPlayer1Input()\<close> and \<^verbatim>\<open>getPlayer2Input()\<close> return in this frame.
  The \<^verbatim>\<open>update()\<close> methods of the puck, the strikers and the chains only redraw;
  \<^verbatim>\<open>Hammer.update()\<close> clamps.
\<close>

definition update :: "input \<Rightarrow> input \<Rightarrow> game \<Rightarrow> game" where
  "update p1Input p2Input s =
     (if gameOver s then s
      else
        (let s1 = (if goalDelay s > 0 then s\<lparr> goalDelay := goalDelay s - 1 \<rparr> else s);
             s2 = (if active p1Input
                   then s1\<lparr> striker1 :=
                          Striker_setPosition (striker1 s1) (input_x p1Input) (input_y p1Input) \<rparr>
                   else s1);
             s3 = (if active p2Input
                   then s2\<lparr> striker2 :=
                          Striker_setPosition (striker2 s2) (input_x p2Input) (input_y p2Input) \<rparr>
                   else s2)
         in s3\<lparr> hammer1 := Hammer_update (hammer1 s3),
                hammer2 := Hammer_update (hammer2 s3) \<rparr>))"

text \<open>
  \<^verbatim>\<open>setupCollisions()\<close>: the handler of \<^verbatim>\<open>collisionstart\<close> walks the pairs of the
  event in order; for each pair it tests the left goal, then the right goal. \<open>pairGoals\<close>
  lists the sides for which one pair makes the handler call \<^verbatim>\<open>onGoalScored\<close>.
\<close>

definition pairGoals :: "body \<times> body \<Rightarrow> string list" where
  "pairGoals pair =
     (let a = fst pair; b = snd pair
      in (if (label a = ''puck'' \<and> label b = ''goal_left'') \<or>
             (label b = ''puck'' \<and> label a = ''goal_left'')
          then [''left''] else []) @
         (if (label a = ''puck'' \<and> label b = ''goal_right'') \<or>
             (label b = ''puck'' \<and> label a = ''goal_right'')
          then [''right''] else []))"

definition collisionstart :: "config \<Rightarrow> (body \<times> body) list \<Rightarrow> game \<Rightarrow> game" where
  "collisionstart cfg pairs s =
     foldl (\<lambda>g side. onGoalScored cfg side g) s (concat (map pairGoals pairs))"

subsection \<open>The rigid-body engine, as far as the game depends on it\<close>

text \<open>
  The engine (Matter.js, driven by Phaser) is not part of the repository. Two of its
  rules decide what the game's collision filters and body options mean, and are
  modelled here from the engine's documented behaviour.

  \<^item> \<^verbatim>\<open>Detector.canCollide(filterA, filterB)\<close>: two bodies with the same non-zero group
    collide exactly when the group is positive; otherwise each body's mask must contain
    a bit of the other body's category.
  \<^item> The detector skips a pair of two static bodies, and reports a pair in
    \<^verbatim>\<open>collisionstart\<close> only if \<^verbatim>\<open>canCollide\<close> holds for it; a pair with a sensor body
    is reported but gets no collision response.
\<close>

definition canCollide :: "collisionFilter \<Rightarrow> collisionFilter \<Rightarrow> bool" where
  "canCollide fa fb =
     (if group fa = group fb \<and> group fa \<noteq> 0 then group fa > 0
      else (maskBits fa AND category fb) \<noteq> 0 \<and> (maskBits fb AND category fa) \<noteq> 0)"

definition detects :: "body \<Rightarrow> body \<Rightarrow> bool" where
  "detects a b = (\<not> (isStatic a \<and> isStatic b) \<and> canCollide (filter_of a) (filter_of b))"

definition reportedPairs :: "(body \<times> body) list \<Rightarrow> (body \<times> body) list" where
  "reportedPairs overlapping = filter (\<lambda>pair. detects (fst pair) (snd pair)) overlapping"









subsection \<open>Event sequences\<close>

text \<open>
  What reaches the controller during a match: a goal signal from the collision handler,
  a frame (\<^verbatim>\<open>update()\<close> with the two input samples), a tick of the one-second timer.
\<close>

datatype event = GoalScored string | Frame input input | Tick

fun step :: "config \<Rightarrow> event \<Rightarrow> game \<Rightarrow> game" where
  "step cfg (GoalScored side) s = onGoalScored cfg side s"
| "step cfg (Frame p1Input p2Input) s = update p1Input p2Input s"
| "step cfg Tick s = updateTimer cfg s"

fun run :: "config \<Rightarrow> event list \<Rightarrow> game \<Rightarrow> game" where
  "run cfg [] s = s"
| "run cfg (e # es) s = run cfg es (step cfg e s)"

fun isFrame :: "event \<Rightarrow> bool" where
  "isFrame (Frame _ _) = True"
| "isFrame _ = False"

text \<open>What the input manager returns for a player who is not touching the screen.\<close>

definition noInput :: input where
  "noInput = \<lparr> input_x = 0, input_y = 0, active = False \<rparr>"

text \<open>The collision-relevant options of a body: category, mask, group, static, sensor.\<close>

definition filterProfile :: "body \<Rightarrow> 32 word \<times> 32 word \<times> int \<times> bool \<times> bool" where
  "filterProfile b =
     (category (filter_of b), maskBits (filter_of b), group (filter_of b),
      isStatic b, isSensor b)"

text \<open>The scene's puck, moved to the point \<open>q\<close>.\<close>

definition puckAt :: "config \<Rightarrow> vec \<Rightarrow> body" where
  "puckAt cfg q = setPosition (puck_body (puck (create cfg))) q"


section \<open>Properties\<close>

subsection \<open>Auxiliary facts\<close>

lemma create_fields:
  "player1Score (create cfg) = 0"
  "player2Score (create cfg) = 0"
  "gameTime (create cfg) = GAME_DURATION_SECONDS cfg"
  "gameOver (create cfg) = False"
  "goalDelay (create cfg) = 0"
  "winner (create cfg) = None"
  "gameOverCalls (create cfg) = 0"
  by (simp_all add: create_def Let_def)

lemma scene_fields:
  "walls (create cfg) = createWalls cfg"
  "goalLeft (create cfg) = Goal_new cfg ''left''"
  "goalRight (create cfg) = Goal_new cfg ''right''"
  "puck (create cfg) = Puck_new cfg (GAME_WIDTH cfg / 2) (GAME_HEIGHT cfg / 2)"
  "striker1 (create cfg) = Striker_new cfg (PLAYER1_SPAWN_X cfg) (PLAYER_SPAWN_Y cfg) 1"
  "striker2 (create cfg) = Striker_new cfg (PLAYER2_SPAWN_X cfg) (PLAYER_SPAWN_Y cfg) 2"
  "hammer1 (create cfg) = Hammer_new cfg (PLAYER1_SPAWN_X cfg + 100) (PLAYER_SPAWN_Y cfg) 1"
  "hammer2 (create cfg) = Hammer_new cfg (PLAYER2_SPAWN_X cfg - 100) (PLAYER_SPAWN_Y cfg) 2"
  "chain1 (create cfg) = createChain cfg 1 (striker1 (create cfg)) (hammer1 (create cfg))"
  "chain2 (create cfg) = createChain cfg 2 (striker2 (create cfg)) (hammer2 (create cfg))"
  by (simp_all add: create_def Let_def)

lemma checkWinCondition_keeps:
  "player1Score (checkWinCondition cfg s) = player1Score s"
  "player2Score (checkWinCondition cfg s) = player2Score s"
  "goalDelay (checkWinCondition cfg s) = goalDelay s"
  "puck (checkWinCondition cfg s) = puck s"
  "gameTime (checkWinCondition cfg s) = gameTime s"
  by (simp_all add: checkWinCondition_def endGame_def)

lemma onGoalScored_ignored:
  "goalDelay s > 0 \<or> gameOver s \<Longrightarrow> onGoalScored cfg side s = s"
  by (simp add: onGoalScored_def)

lemma onGoalScored_scoring:
  assumes "\<not> gameOver s" "goalDelay s \<le> 0"
  shows "player1Score (onGoalScored cfg side s) =
           player1Score s + (if side = ''left'' then 0 else 1)"
    and "player2Score (onGoalScored cfg side s) =
           player2Score s + (if side = ''left'' then 1 else 0)"
    and "goalDelay (onGoalScored cfg side s) = GOAL_DELAY_FRAMES cfg"
    and "puck (onGoalScored cfg side s) = Puck_reset (puck s)"
  using assms
  by (simp_all add: onGoalScored_def checkWinCondition_keeps updateScoreDisplay_def Let_def)

lemma update_keeps:
  "player1Score (update i1 i2 s) = player1Score s"
  "player2Score (update i1 i2 s) = player2Score s"
  "gameOver (update i1 i2 s) = gameOver s"
  "puck (update i1 i2 s) = puck s"
  by (simp_all add: update_def Let_def)

lemma update_goalDelay:
  "goalDelay (update i1 i2 s) =
     (if \<not> gameOver s \<and> goalDelay s > 0 then goalDelay s - 1 else goalDelay s)"
  by (simp add: update_def Let_def)

lemma updateTimer_keeps:
  "player1Score (updateTimer cfg s) = player1Score s"
  "player2Score (updateTimer cfg s) = player2Score s"
  "goalDelay (updateTimer cfg s) = goalDelay s"
  "puck (updateTimer cfg s) = puck s"
  by (simp_all add: updateTimer_def Let_def checkWinCondition_keeps)

lemma step_gameOver: "gameOver s \<Longrightarrow> step cfg e s = s"
  by (cases e) (simp_all add: onGoalScored_def update_def updateTimer_def)

lemma run_gameOver: "gameOver s \<Longrightarrow> run cfg evs s = s"
  by (induction evs) (simp_all add: step_gameOver)

lemma collisionstart_gameOver: "gameOver s \<Longrightarrow> collisionstart cfg pairs s = s"
proof -
  have "gameOver s \<Longrightarrow> foldl (\<lambda>g side. onGoalScored cfg side g) s sides = s" for sides
    by (induction sides) (simp_all add: onGoalScored_def)
  then show "gameOver s \<Longrightarrow> collisionstart cfg pairs s = s"
    by (simp add: collisionstart_def)
qed

text \<open>
  While the match is over, or the cooldown is longer than the number of frames still to
  come, no event changes a score or touches the puck.
\<close>

lemma run_in_cooldown:
  "gameOver s \<or> int (length (filter isFrame evs)) < goalDelay s \<Longrightarrow>
   player1Score (run cfg evs s) = player1Score s \<and>
   player2Score (run cfg evs s) = player2Score s \<and>
   puck (run cfg evs s) = puck s"
proof (induction evs arbitrary: s)
  case Nil
  then show ?case by simp
next
  case (Cons e evs)
  show ?case
  proof (cases "gameOver s")
    case True
    from run_gameOver[OF True, of cfg "e # evs"] show ?thesis by simp
  next
    case False
    with Cons.prems have d: "int (length (filter isFrame (e # evs))) < goalDelay s"
      by simp
    show ?thesis
    proof (cases e)
      case (GoalScored side)
      with d have "step cfg e s = s" by (simp add: onGoalScored_def)
      with Cons.IH[of s] d GoalScored show ?thesis by simp
    next
      case (Frame i1 i2)
      let ?s' = "update i1 i2 s"
      from d Frame False have "int (length (filter isFrame evs)) < goalDelay ?s'"
        by (simp add: update_goalDelay)
      then have "player1Score (run cfg evs ?s') = player1Score ?s' \<and>
                 player2Score (run cfg evs ?s') = player2Score ?s' \<and>
                 puck (run cfg evs ?s') = puck ?s'"
        using Cons.IH[of ?s'] by simp
      with Frame show ?thesis by (simp add: update_keeps)
    next
      case Tick
      let ?s' = "updateTimer cfg s"
      from d Tick have "int (length (filter isFrame evs)) < goalDelay ?s'"
        by (simp add: updateTimer_keeps)
      then have "player1Score (run cfg evs ?s') = player1Score ?s' \<and>
                 player2Score (run cfg evs ?s') = player2Score ?s' \<and>
                 puck (run cfg evs ?s') = puck ?s'"
        using Cons.IH[of ?s'] by simp
      with Tick show ?thesis by (simp add: updateTimer_keeps)
    qed
  qed
qed

subsection \<open>Scoring\<close>



text \<open>
  C3. While \<open>goalDelay > 0\<close> or \<open>gameOver\<close> holds, \<^verbatim>\<open>onGoalScored\<close> changes nothing at all,
  for either side. Hence a burst of goal signals scores once: starting from a state \<open>t\<close>
  with \<open>goalDelay = 0\<close> that is not over, a goal signal followed by any events (goal
  signals, timer ticks, frames) among which there are fewer frames than the cooldown
  lasts, adds 1 to the score of the player credited by the first signal and nothing
  else. \<^verbatim>\<open>update\<close> takes exactly 1 off a positive \<open>goalDelay\<close> per frame and leaves a
  \<open>goalDelay\<close> that is not positive.
\<close>

theorem goal_ignored_during_cooldown:
  "(goalDelay s > 0 \<or> gameOver s \<longrightarrow> onGoalScored cfg side s = s) \<and>
   (\<not> gameOver t \<and> goalDelay t = 0 \<and>
    int (length (filter isFrame evs)) < GOAL_DELAY_FRAMES cfg \<longrightarrow>
      player1Score (run cfg (GoalScored side # evs) t) =
        player1Score t + (if side = ''left'' then 0 else 1) \<and>
      player2Score (run cfg (GoalScored side # evs) t) =
        player2Score t + (if side = ''left'' then 1 else 0)) \<and>
   (\<not> gameOver s \<and> goalDelay s > 0 \<longrightarrow>
      goalDelay (update p1Input p2Input s) = goalDelay s - 1) \<and>
   (\<not> gameOver t \<and> goalDelay t = 0 \<longrightarrow> goalDelay (update p1Input p2Input t) = 0)"
proof (intro conjI impI)
  assume "goalDelay s > 0 \<or> gameOver s"
  then show "onGoalScored cfg side s = s" by (rule onGoalScored_ignored)
next
  assume a: "\<not> gameOver t \<and> goalDelay t = 0 \<and>
             int (length (filter isFrame evs)) < GOAL_DELAY_FRAMES cfg"
  let ?t' = "onGoalScored cfg side t"
  from a have "int (length (filter isFrame evs)) < goalDelay ?t'"
    by (simp add: onGoalScored_scoring)
  then have r: "player1Score (run cfg evs ?t') = player1Score ?t' \<and>
                player2Score (run cfg evs ?t') = player2Score ?t'"
    using run_in_cooldown[of ?t' evs cfg] by simp
  from a r show "player1Score (run cfg (GoalScored side # evs) t) =
                   player1Score t + (if side = ''left'' then 0 else 1)"
    by (simp add: onGoalScored_scoring)
  from a r show "player2Score (run cfg (GoalScored side # evs) t) =
                   player2Score t + (if side = ''left'' then 1 else 0)"
    by (simp add: onGoalScored_scoring)
next
  assume "\<not> gameOver s \<and> goalDelay s > 0"
  then show "goalDelay (update p1Input p2Input s) = goalDelay s - 1"
    by (simp add: update_goalDelay)
next
  assume "\<not> gameOver t \<and> goalDelay t = 0"
  then show "goalDelay (update p1Input p2Input t) = 0"
    by (simp add: update_goalDelay)
qed

theorem goal_ignored_during_cooldown_witness:
  "goalDelay ((create GameConfig)\<lparr> goalDelay := 5 \<rparr>) > 0 \<and>
   \<not> gameOver ((create GameConfig)\<lparr> goalDelay := 5 \<rparr>) \<and>
   onGoalScored GameConfig ''left'' ((create GameConfig)\<lparr> goalDelay := 5 \<rparr>) =
     (create GameConfig)\<lparr> goalDelay := 5 \<rparr> \<and>
   \<not> gameOver (create GameConfig) \<and> goalDelay (create GameConfig) = 0 \<and>
   player2Score (run GameConfig
     [GoalScored ''left'', GoalScored ''left'', Frame noInput noInput, GoalScored ''right'', Tick]
     (create GameConfig)) = 1 \<and>
   player1Score (run GameConfig
     [GoalScored ''left'', GoalScored ''left'', Frame noInput noInput, GoalScored ''right'', Tick]
     (create GameConfig)) = 0 \<and>
   goalDelay (update noInput noInput ((create GameConfig)\<lparr> goalDelay := 5 \<rparr>)) = 4 \<and>
   goalDelay (update noInput noInput (create GameConfig)) = 0"
proof -
  have c: "GOAL_DELAY_FRAMES GameConfig = 60" by (simp add: GameConfig_def)
  from goal_ignored_during_cooldown[of "(create GameConfig)\<lparr> goalDelay := 5 \<rparr>"
      GameConfig "''left''" "create GameConfig"
      "[GoalScored ''left'', Frame noInput noInput, GoalScored ''right'', Tick]"
      noInput noInput]
  show ?thesis
    by (simp add: create_fields c)
qed

subsection \<open>The win condition\<close>

text \<open>
  C4. \<^verbatim>\<open>checkWinCondition\<close> in a state that is not over: if \<open>player1Score\<close> has reached
  \<open>MAX_GOALS\<close> the game ends with winner 1; else if \<open>player2Score\<close> has reached it the game
  ends with winner 2, whatever time remains in both cases; else if \<open>gameTime \<le> 0\<close> the
  game ends with the player holding the strictly higher score as winner, or with winner
  0, the tie, when the scores are equal; else nothing changes. In particular: at 9-9 with
  goal limit 10 a left goal makes \<open>player2Score\<close> 10 and ends the game at once with winner
  2, for any \<open>gameTime\<close>; time 0 at 4-6 gives winner 2; time 0 at 5-5 gives the tie. Ending
  the game schedules the game-over notification once.
\<close>

theorem checkWinCondition_decides:
  "(\<not> gameOver s \<and> MAX_GOALS cfg \<le> player1Score s \<longrightarrow>
      gameOver (checkWinCondition cfg s) \<and> winner (checkWinCondition cfg s) = Some 1 \<and>
      gameOverCalls (checkWinCondition cfg s) = Suc (gameOverCalls s)) \<and>
   (\<not> gameOver s \<and> player1Score s < MAX_GOALS cfg \<and> MAX_GOALS cfg \<le> player2Score s \<longrightarrow>
      gameOver (checkWinCondition cfg s) \<and> winner (checkWinCondition cfg s) = Some 2 \<and>
      gameOverCalls (checkWinCondition cfg s) = Suc (gameOverCalls s)) \<and>
   (\<not> gameOver s \<and> player1Score s < MAX_GOALS cfg \<and> player2Score s < MAX_GOALS cfg \<and>
    gameTime s \<le> 0 \<longrightarrow>
      gameOver (checkWinCondition cfg s) \<and>
      winner (checkWinCondition cfg s) =
        Some (if player1Score s > player2Score s then 1
              else if player2Score s > player1Score s then 2 else 0) \<and>
      gameOverCalls (checkWinCondition cfg s) = Suc (gameOverCalls s)) \<and>
   (\<not> gameOver s \<and> player1Score s < MAX_GOALS cfg \<and> player2Score s < MAX_GOALS cfg \<and>
    gameTime s > 0 \<longrightarrow> checkWinCondition cfg s = s) \<and>
   (\<not> gameOver s \<and> goalDelay s = 0 \<and> player1Score s = 9 \<and> player2Score s = 9 \<and>
    MAX_GOALS cfg = 10 \<longrightarrow>
      player2Score (onGoalScored cfg ''left'' s) = 10 \<and>
      player1Score (onGoalScored cfg ''left'' s) = 9 \<and>
      gameOver (onGoalScored cfg ''left'' s) \<and>
      winner (onGoalScored cfg ''left'' s) = Some 2) \<and>
   (\<not> gameOver s \<and> gameTime s \<le> 0 \<and> player1Score s = 4 \<and> player2Score s = 6 \<and>
    MAX_GOALS cfg = 10 \<longrightarrow>
      gameOver (checkWinCondition cfg s) \<and> winner (checkWinCondition cfg s) = Some 2) \<and>
   (\<not> gameOver s \<and> gameTime s \<le> 0 \<and> player1Score s = 5 \<and> player2Score s = 5 \<and>
    MAX_GOALS cfg = 10 \<longrightarrow>
      gameOver (checkWinCondition cfg s) \<and> winner (checkWinCondition cfg s) = Some 0)"
proof (intro conjI impI)
  assume "\<not> gameOver s \<and> goalDelay s = 0 \<and> player1Score s = 9 \<and> player2Score s = 9 \<and>
          MAX_GOALS cfg = 10"
  then show "player2Score (onGoalScored cfg ''left'' s) = 10"
    and "player1Score (onGoalScored cfg ''left'' s) = 9"
    and "gameOver (onGoalScored cfg ''left'' s)"
    and "winner (onGoalScored cfg ''left'' s) = Some 2"
    by (simp_all add: onGoalScored_def updateScoreDisplay_def checkWinCondition_def
        endGame_def Let_def)
qed (simp_all add: checkWinCondition_def endGame_def)

theorem checkWinCondition_decides_witness:
  "winner (checkWinCondition GameConfig ((create GameConfig)\<lparr> player1Score := 10 \<rparr>)) = Some 1 \<and>
   winner (checkWinCondition GameConfig ((create GameConfig)\<lparr> player2Score := 10 \<rparr>)) = Some 2 \<and>
   winner (checkWinCondition GameConfig
     ((create GameConfig)\<lparr> player1Score := 3, player2Score := 1, gameTime := 0 \<rparr>)) = Some 1 \<and>
   checkWinCondition GameConfig ((create GameConfig)\<lparr> player1Score := 3 \<rparr>) =
     (create GameConfig)\<lparr> player1Score := 3 \<rparr> \<and>
   player2Score (onGoalScored GameConfig ''left''
     ((create GameConfig)\<lparr> player1Score := 9, player2Score := 9 \<rparr>)) = 10 \<and>
   winner (onGoalScored GameConfig ''left''
     ((create GameConfig)\<lparr> player1Score := 9, player2Score := 9 \<rparr>)) = Some 2 \<and>
   gameOver (onGoalScored GameConfig ''left''
     ((create GameConfig)\<lparr> player1Score := 9, player2Score := 9 \<rparr>)) \<and>
   winner (checkWinCondition GameConfig
     ((create GameConfig)\<lparr> player1Score := 4, player2Score := 6, gameTime := 0 \<rparr>)) = Some 2 \<and>
   winner (checkWinCondition GameConfig
     ((create GameConfig)\<lparr> player1Score := 5, player2Score := 5, gameTime := 0 \<rparr>)) = Some 0"
proof -
  have c: "MAX_GOALS GameConfig = 10" "GAME_DURATION_SECONDS GameConfig = 300"
    by (simp_all add: GameConfig_def)
  from
    checkWinCondition_decides[of "(create GameConfig)\<lparr> player1Score := 10 \<rparr>" GameConfig]
    checkWinCondition_decides[of "(create GameConfig)\<lparr> player2Score := 10 \<rparr>" GameConfig]
    checkWinCondition_decides[of
      "(create GameConfig)\<lparr> player1Score := 3, player2Score := 1, gameTime := 0 \<rparr>" GameConfig]
    checkWinCondition_decides[of "(create GameConfig)\<lparr> player1Score := 3 \<rparr>" GameConfig]
    checkWinCondition_decides[of
      "(create GameConfig)\<lparr> player1Score := 9, player2Score := 9 \<rparr>" GameConfig]
    checkWinCondition_decides[of
      "(create GameConfig)\<lparr> player1Score := 4, player2Score := 6, gameTime := 0 \<rparr>" GameConfig]
    checkWinCondition_decides[of
      "(create GameConfig)\<lparr> player1Score := 5, player2Score := 5, gameTime := 0 \<rparr>" GameConfig]
  show ?thesis
    by (simp add: create_fields c)
qed

text \<open>
  C5. Once \<open>gameOver\<close> is true, every entry point of the controller returns the state as
  it was: \<^verbatim>\<open>checkWinCondition\<close>, \<^verbatim>\<open>updateTimer\<close>, \<^verbatim>\<open>onGoalScored\<close>, the per-frame
  \<^verbatim>\<open>update\<close> and the collision handler. So the scores, \<open>gameTime\<close>, \<open>goalDelay\<close>, \<open>winner\<close>
  and \<open>gameOver\<close> stay, and \<open>gameOverCalls\<close> stays: the finished notification is not
  scheduled again. The same holds for \<^verbatim>\<open>checkWinCondition\<close> called any number of times
  and for any sequence of events.
\<close>

theorem ended_match_is_frozen:
  assumes "gameOver s"
  shows "checkWinCondition cfg s = s \<and> updateTimer cfg s = s \<and>
         onGoalScored cfg side s = s \<and> update p1Input p2Input s = s \<and>
         collisionstart cfg pairs s = s \<and>
         (checkWinCondition cfg ^^ n) s = s \<and> run cfg evs s = s"
proof -
  have "(checkWinCondition cfg ^^ n) s = s"
    using assms by (induction n) (simp_all add: checkWinCondition_def)
  with assms show ?thesis
    by (simp add: checkWinCondition_def updateTimer_def onGoalScored_def update_def
        run_gameOver collisionstart_gameOver)
qed

theorem ended_match_is_frozen_witness:
  "gameOver (endGame 2 (create GameConfig)) \<and>
   checkWinCondition GameConfig (endGame 2 (create GameConfig)) = endGame 2 (create GameConfig) \<and>
   updateTimer GameConfig (endGame 2 (create GameConfig)) = endGame 2 (create GameConfig) \<and>
   onGoalScored GameConfig ''right'' (endGame 2 (create GameConfig)) =
     endGame 2 (create GameConfig) \<and>
   update noInput noInput (endGame 2 (create GameConfig)) = endGame 2 (create GameConfig) \<and>
   (checkWinCondition GameConfig ^^ 3) (endGame 2 (create GameConfig)) =
     endGame 2 (create GameConfig) \<and>
   winner ((checkWinCondition GameConfig ^^ 3) (endGame 2 (create GameConfig))) = Some 2 \<and>
   gameOverCalls ((checkWinCondition GameConfig ^^ 3) (endGame 2 (create GameConfig))) = 1"
proof -
  have h: "gameOver (endGame 2 (create GameConfig))"
    by (simp add: endGame_def)
  have w: "winner (endGame 2 (create GameConfig)) = Some 2"
    "gameOverCalls (endGame 2 (create GameConfig)) = 1"
    by (simp_all add: endGame_def create_fields)
  from ended_match_is_frozen[OF h, of GameConfig "''right''" noInput noInput "[]" 3 "[]"] h w
  show ?thesis by simp
qed

subsection \<open>The puck's reset\<close>

lemma step_puck:
  "puck (step cfg e s) =
     (if player1Score (step cfg e s) + player2Score (step cfg e s) =
         player1Score s + player2Score s
      then puck s else Puck_reset (puck s))"
proof (cases e)
  case (GoalScored side)
  show ?thesis
  proof (cases "goalDelay s > 0 \<or> gameOver s")
    case True
    with GoalScored show ?thesis by (simp add: onGoalScored_def)
  next
    case False
    with GoalScored show ?thesis by (simp add: onGoalScored_scoring)
  qed
next
  case (Frame i1 i2)
  then show ?thesis by (simp add: update_keeps)
next
  case Tick
  then show ?thesis by (simp add: updateTimer_keeps)
qed

lemma step_total:
  "player1Score (step cfg e s) + player2Score (step cfg e s) = player1Score s + player2Score s \<or>
   player1Score (step cfg e s) + player2Score (step cfg e s) = player1Score s + player2Score s + 1"
proof (cases e)
  case (GoalScored side)
  show ?thesis
  proof (cases "goalDelay s > 0 \<or> gameOver s")
    case True
    with GoalScored show ?thesis by (simp add: onGoalScored_def)
  next
    case False
    with GoalScored show ?thesis by (simp add: onGoalScored_scoring)
  qed
next
  case (Frame i1 i2)
  then show ?thesis by (simp add: update_keeps)
next
  case Tick
  then show ?thesis by (simp add: updateTimer_keeps)
qed

lemma step_resets:
  "int (puck_resets (puck (step cfg e s))) - int (puck_resets (puck s)) =
   (player1Score (step cfg e s) + player2Score (step cfg e s)) -
   (player1Score s + player2Score s)"
  using step_total[of cfg e s] step_puck[of cfg e s]
  by (auto simp: Puck_reset_def)

lemma run_resets:
  "int (puck_resets (puck (run cfg evs s))) - int (puck_resets (puck s)) =
   (player1Score (run cfg evs s) + player2Score (run cfg evs s)) -
   (player1Score s + player2Score s)"
proof (induction evs arbitrary: s)
  case Nil
  show ?case by simp
next
  case (Cons e evs)
  from Cons.IH[of "step cfg e s"] step_resets[of cfg e s] show ?case by simp
qed

lemma step_start:
  "puck_startX (puck (step cfg e s)) = puck_startX (puck s)"
  "puck_startY (puck (step cfg e s)) = puck_startY (puck s)"
  using step_puck[of cfg e s] by (simp_all add: Puck_reset_def)

lemma run_start:
  "puck_startX (puck (run cfg evs s)) = puck_startX (puck s) \<and>
   puck_startY (puck (run cfg evs s)) = puck_startY (puck s)"
  by (induction evs arbitrary: s) (simp_all add: step_start)

text \<open>
  C6. Whatever the body \<open>b\<close> of the puck is before (any position, any linear velocity,
  any angular velocity), \<^verbatim>\<open>Puck.reset()\<close> leaves it at \<open>(startX, startY)\<close>, the coordinates
  stored at construction, with linear velocity \<open>(0, 0)\<close> and angular velocity 0. For the
  scene's puck these coordinates are the field centre, and no event changes them. The
  controller resets the puck exactly when a goal is scored: an event that leaves the sum
  of the scores leaves the puck, an event that changes the sum resets it, and over any
  sequence of events the number of resets equals the number of goals scored.
\<close>

theorem Puck_reset_rest_position:
  "position (puck_body (Puck_reset (p\<lparr> puck_body := b \<rparr>))) = (puck_startX p, puck_startY p) \<and>
   velocity (puck_body (Puck_reset (p\<lparr> puck_body := b \<rparr>))) = (0, 0) \<and>
   angularVelocity (puck_body (Puck_reset (p\<lparr> puck_body := b \<rparr>))) = 0 \<and>
   puck_startX (puck (run cfg evs (create cfg))) = GAME_WIDTH cfg / 2 \<and>
   puck_startY (puck (run cfg evs (create cfg))) = GAME_HEIGHT cfg / 2 \<and>
   puck (step cfg e s) =
     (if player1Score (step cfg e s) + player2Score (step cfg e s) =
         player1Score s + player2Score s
      then puck s else Puck_reset (puck s)) \<and>
   int (puck_resets (puck (run cfg evs s))) - int (puck_resets (puck s)) =
     (player1Score (run cfg evs s) + player2Score (run cfg evs s)) -
     (player1Score s + player2Score s)"
proof -
  have "puck_startX (puck (create cfg)) = GAME_WIDTH cfg / 2"
    and "puck_startY (puck (create cfg)) = GAME_HEIGHT cfg / 2"
    by (simp_all add: scene_fields Puck_new_def)
  then have "puck_startX (puck (run cfg evs (create cfg))) = GAME_WIDTH cfg / 2"
    and "puck_startY (puck (run cfg evs (create cfg))) = GAME_HEIGHT cfg / 2"
    by (simp_all add: run_start)
  moreover have "position (puck_body (Puck_reset (p\<lparr> puck_body := b \<rparr>))) =
      (puck_startX p, puck_startY p)"
    and "velocity (puck_body (Puck_reset (p\<lparr> puck_body := b \<rparr>))) = (0, 0)"
    and "angularVelocity (puck_body (Puck_reset (p\<lparr> puck_body := b \<rparr>))) = 0"
    by (simp_all add: Puck_reset_def setPosition_def setVelocity_def setAngularVelocity_def)
  ultimately show ?thesis
    using step_puck[of cfg e s] run_resets[of cfg evs s] by simp
qed

subsection \<open>The striker's band\<close>

lemma Clamp_cases:
  "lo \<le> hi \<Longrightarrow> Clamp v lo hi = (if v < lo then lo else if v > hi then hi else v)"
  by (simp add: Clamp_def)

lemma Striker_setPosition_position:
  "position (striker_body (Striker_setPosition st x y)) =
     (Clamp x (striker_minX st) (striker_maxX st), Clamp y (striker_minY st) (striker_maxY st))"
  by (simp add: Striker_setPosition_def setPosition_def Let_def)

text \<open>
  C7. For every input sample \<open>(x, y)\<close>, inside the field or not, and whatever the body
  \<open>b\<close> of the striker is before, \<^verbatim>\<open>Striker.setPosition(x, y)\<close> puts the striker of player
  1 at an \<open>x\<close> in \<open>[CENTER_LINE_X + RADIUS, GAME_WIDTH - RADIUS]\<close>, the striker of player 2
  at an \<open>x\<close> in \<open>[RADIUS, CENTER_LINE_X - RADIUS]\<close>, and both at a \<open>y\<close> in
  \<open>[RADIUS, GAME_HEIGHT - RADIUS]\<close>. Each coordinate is the sample's coordinate if that
  lies in the band, and the nearest end of the band otherwise.
\<close>

theorem Striker_setPosition_within_band:
  "fst (position (striker_body (Striker_setPosition
      ((Striker_new GameConfig x0 y0 1)\<lparr> striker_body := b \<rparr>) x y))) =
     (if x < CENTER_LINE_X GameConfig + STRIKER_RADIUS GameConfig
      then CENTER_LINE_X GameConfig + STRIKER_RADIUS GameConfig
      else if x > GAME_WIDTH GameConfig - STRIKER_RADIUS GameConfig
      then GAME_WIDTH GameConfig - STRIKER_RADIUS GameConfig else x) \<and>
   fst (position (striker_body (Striker_setPosition
      ((Striker_new GameConfig x0 y0 1)\<lparr> striker_body := b \<rparr>) x y)))
     \<in> {CENTER_LINE_X GameConfig + STRIKER_RADIUS GameConfig ..
        GAME_WIDTH GameConfig - STRIKER_RADIUS GameConfig} \<and>
   fst (position (striker_body (Striker_setPosition
      ((Striker_new GameConfig x0 y0 2)\<lparr> striker_body := b \<rparr>) x y))) =
     (if x < STRIKER_RADIUS GameConfig then STRIKER_RADIUS GameConfig
      else if x > CENTER_LINE_X GameConfig - STRIKER_RADIUS GameConfig
      then CENTER_LINE_X GameConfig - STRIKER_RADIUS GameConfig else x) \<and>
   fst (position (striker_body (Striker_setPosition
      ((Striker_new GameConfig x0 y0 2)\<lparr> striker_body := b \<rparr>) x y)))
     \<in> {STRIKER_RADIUS GameConfig .. CENTER_LINE_X GameConfig - STRIKER_RADIUS GameConfig} \<and>
   snd (position (striker_body (Striker_setPosition
      ((Striker_new GameConfig x0 y0 n)\<lparr> striker_body := b \<rparr>) x y))) =
     (if y < STRIKER_RADIUS GameConfig then STRIKER_RADIUS GameConfig
      else if y > GAME_HEIGHT GameConfig - STRIKER_RADIUS GameConfig
      then GAME_HEIGHT GameConfig - STRIKER_RADIUS GameConfig else y) \<and>
   snd (position (striker_body (Striker_setPosition
      ((Striker_new GameConfig x0 y0 n)\<lparr> striker_body := b \<rparr>) x y)))
     \<in> {STRIKER_RADIUS GameConfig .. GAME_HEIGHT GameConfig - STRIKER_RADIUS GameConfig}"
proof -
  let ?s1 = "(Striker_new GameConfig x0 y0 1)\<lparr> striker_body := b \<rparr>"
  let ?s2 = "(Striker_new GameConfig x0 y0 2)\<lparr> striker_body := b \<rparr>"
  let ?sn = "(Striker_new GameConfig x0 y0 n)\<lparr> striker_body := b \<rparr>"
  have x1: "fst (position (striker_body (Striker_setPosition ?s1 x y))) = Clamp x 620 1180"
    by (simp add: Striker_setPosition_position Striker_new_def GameConfig_def)
  have x2: "fst (position (striker_body (Striker_setPosition ?s2 x y))) = Clamp x 20 580"
    by (simp add: Striker_setPosition_position Striker_new_def GameConfig_def)
  have yn: "snd (position (striker_body (Striker_setPosition ?sn x y))) = Clamp y 20 680"
    by (simp add: Striker_setPosition_position Striker_new_def GameConfig_def)
  have c: "CENTER_LINE_X GameConfig = 600" "STRIKER_RADIUS GameConfig = 20"
    "GAME_WIDTH GameConfig = 1200" "GAME_HEIGHT GameConfig = 700"
    by (simp_all add: GameConfig_def)
  show ?thesis
    unfolding x1 x2 yn c by (simp add: Clamp_cases)
qed

subsection \<open>The chain\<close>

lemma createChain_segments:
  "chain_segments (createChain cfg p st hm) =
     map (chain_segment cfg p (Striker_getPosition st)
            ((fst (Hammer_getPosition hm) - fst (Striker_getPosition st)) /
               (real (CHAIN_SEGMENTS cfg) + 1))
            ((snd (Hammer_getPosition hm) - snd (Striker_getPosition st)) /
               (real (CHAIN_SEGMENTS cfg) + 1)))
         [0..<CHAIN_SEGMENTS cfg]"
  by (simp add: createChain_def Let_def)

lemma createChain_length_segments:
  "length (chain_segments (createChain cfg p st hm)) = CHAIN_SEGMENTS cfg"
  by (simp add: createChain_segments)

lemma segment_position:
  assumes "i < CHAIN_SEGMENTS cfg"
  shows "position (chain_segments (createChain cfg p st hm) ! i) =
     (fst (Striker_getPosition st) +
        (fst (Hammer_getPosition hm) - fst (Striker_getPosition st)) * (real i + 1) /
          (real (CHAIN_SEGMENTS cfg) + 1),
      snd (Striker_getPosition st) +
        (snd (Hammer_getPosition hm) - snd (Striker_getPosition st)) * (real i + 1) /
          (real (CHAIN_SEGMENTS cfg) + 1))"
  using assms by (simp add: createChain_segments chain_segment_def add_circle_def)

lemma createChain_constraints:
  "chain_constraints (createChain cfg p st hm) =
    (let segs = chain_segments (createChain cfg p st hm);
         link = (\<lambda>a b. add_constraint a b (CHAIN_SEGMENT_LENGTH cfg) (CHAIN_STIFFNESS cfg)
                           (CHAIN_DAMPING cfg))
     in [link (Some (striker_body st)) (at_index segs 0)] @
        map (\<lambda>i. link (at_index segs i) (at_index segs (i + 1))) [0..<length segs - 1] @
        [link (if segs = [] then None else at_index segs (length segs - 1))
              (Some (hammer_body hm))])"
  by (simp add: createChain_def Let_def)

text \<open>With no segment the two end constraints are still pushed, each with one end missing.\<close>

lemma createChain_length_constraints:
  "length (chain_constraints (createChain cfg p st hm)) =
     (if CHAIN_SEGMENTS cfg = 0 then 2 else CHAIN_SEGMENTS cfg + 1)"
  by (simp add: createChain_constraints createChain_length_segments Let_def)

lemma constraint_nth:
  assumes "0 < CHAIN_SEGMENTS cfg" and "k \<le> CHAIN_SEGMENTS cfg"
  shows "chain_constraints (createChain cfg p st hm) ! k =
     add_constraint
       (if k = 0 then Some (striker_body st)
        else Some (chain_segments (createChain cfg p st hm) ! (k - 1)))
       (if k = CHAIN_SEGMENTS cfg then Some (hammer_body hm)
        else Some (chain_segments (createChain cfg p st hm) ! k))
       (CHAIN_SEGMENT_LENGTH cfg) (CHAIN_STIFFNESS cfg) (CHAIN_DAMPING cfg)"
proof -
  let ?segs = "chain_segments (createChain cfg p st hm)"
  have len: "length ?segs = CHAIN_SEGMENTS cfg" by (rule createChain_length_segments)
  with assms have ne: "?segs \<noteq> []" by auto
  consider "k = 0" | "0 < k" "k < CHAIN_SEGMENTS cfg" | "k = CHAIN_SEGMENTS cfg" "0 < k"
    using assms by linarith
  then show ?thesis
  proof cases
    case 1
    with assms len ne show ?thesis
      by (simp add: createChain_constraints Let_def at_index_def)
  next
    case 2
    with assms len ne show ?thesis
      by (simp add: createChain_constraints Let_def at_index_def nth_append nth_Cons')
  next
    case 3
    with assms len ne show ?thesis
      by (simp add: createChain_constraints Let_def at_index_def nth_append nth_Cons')
  qed
qed

text \<open>
  C9. With \<open>n = CHAIN_SEGMENTS\<close> link bodies (\<open>n\<close> at least 1, as in the configuration,
  where it is 8), \<^verbatim>\<open>createChain\<close> creates \<open>n\<close> segments, segment \<open>i\<close> at
  \<open>strikerPos + (hammerPos - strikerPos) * (i + 1) / (n + 1)\<close> in both coordinates, and
  exactly \<open>n + 1\<close> constraints, each with rest length \<open>SEGMENT_LENGTH\<close>, stiffness
  \<open>STIFFNESS\<close> and damping \<open>DAMPING\<close>. Constraint 0 starts at the striker, constraint \<open>i\<close>
  ends at segment \<open>i\<close> and constraint \<open>i + 1\<close> starts there, and constraint \<open>n\<close> ends
  at the hammer: striker, link 0, link 1, ..., link \<open>n - 1\<close>, hammer, in order.
\<close>

theorem createChain_layout:
  assumes "0 < CHAIN_SEGMENTS cfg"
  shows "length (chain_segments (createChain cfg p st hm)) = CHAIN_SEGMENTS cfg \<and>
    length (chain_constraints (createChain cfg p st hm)) = CHAIN_SEGMENTS cfg + 1 \<and>
    (\<forall>i < CHAIN_SEGMENTS cfg.
       position (chain_segments (createChain cfg p st hm) ! i) =
         (fst (Striker_getPosition st) +
            (fst (Hammer_getPosition hm) - fst (Striker_getPosition st)) * (real i + 1) /
              (real (CHAIN_SEGMENTS cfg) + 1),
          snd (Striker_getPosition st) +
            (snd (Hammer_getPosition hm) - snd (Striker_getPosition st)) * (real i + 1) /
              (real (CHAIN_SEGMENTS cfg) + 1))) \<and>
    (\<forall>k \<le> CHAIN_SEGMENTS cfg.
       length_c (chain_constraints (createChain cfg p st hm) ! k) = CHAIN_SEGMENT_LENGTH cfg \<and>
       stiffness (chain_constraints (createChain cfg p st hm) ! k) = CHAIN_STIFFNESS cfg \<and>
       damping (chain_constraints (createChain cfg p st hm) ! k) = CHAIN_DAMPING cfg) \<and>
    bodyA (chain_constraints (createChain cfg p st hm) ! 0) = Some (striker_body st) \<and>
    (\<forall>i < CHAIN_SEGMENTS cfg.
       bodyB (chain_constraints (createChain cfg p st hm) ! i) =
         Some (chain_segments (createChain cfg p st hm) ! i) \<and>
       bodyA (chain_constraints (createChain cfg p st hm) ! (i + 1)) =
         Some (chain_segments (createChain cfg p st hm) ! i)) \<and>
    bodyB (chain_constraints (createChain cfg p st hm) ! CHAIN_SEGMENTS cfg) =
      Some (hammer_body hm)"
  using assms
  by (simp add: createChain_length_segments createChain_length_constraints segment_position
      constraint_nth add_constraint_def)

theorem createChain_layout_witness:
  "0 < CHAIN_SEGMENTS GameConfig \<and>
   length (chain_segments (chain1 (create GameConfig))) = 8 \<and>
   length (chain_constraints (chain1 (create GameConfig))) = 9 \<and>
   position (chain_segments (chain1 (create GameConfig)) ! 0) = (900 + 100 * 1 / 9, 350) \<and>
   position (chain_segments (chain1 (create GameConfig)) ! 7) = (900 + 100 * 8 / 9, 350) \<and>
   length_c (chain_constraints (chain1 (create GameConfig)) ! 4) = 20 \<and>
   stiffness (chain_constraints (chain1 (create GameConfig)) ! 4) = 7 / 10 \<and>
   damping (chain_constraints (chain1 (create GameConfig)) ! 4) = 5 / 100 \<and>
   bodyA (chain_constraints (chain1 (create GameConfig)) ! 0) =
     Some (striker_body (striker1 (create GameConfig))) \<and>
   bodyB (chain_constraints (chain1 (create GameConfig)) ! 0) =
     Some (chain_segments (chain1 (create GameConfig)) ! 0) \<and>
   bodyA (chain_constraints (chain1 (create GameConfig)) ! 1) =
     Some (chain_segments (chain1 (create GameConfig)) ! 0) \<and>
   bodyB (chain_constraints (chain1 (create GameConfig)) ! 8) =
     Some (hammer_body (hammer1 (create GameConfig)))"
proof -
  have n: "CHAIN_SEGMENTS GameConfig = 8" "CHAIN_SEGMENT_LENGTH GameConfig = 20"
    "CHAIN_STIFFNESS GameConfig = 7 / 10" "CHAIN_DAMPING GameConfig = 5 / 100"
    by (simp_all add: GameConfig_def)
  have h: "0 < CHAIN_SEGMENTS GameConfig" by (simp add: n)
  have sp: "Striker_getPosition (striker1 (create GameConfig)) = (900, 350)"
    by (simp add: scene_fields Striker_getPosition_def Striker_new_def add_circle_def
        GameConfig_def)
  have hp: "Hammer_getPosition (hammer1 (create GameConfig)) = (1000, 350)"
    by (simp add: scene_fields Hammer_getPosition_def Hammer_new_def add_circle_def
        GameConfig_def)
  note t = createChain_layout[OF h, of 1 "striker1 (create GameConfig)"
      "hammer1 (create GameConfig)", folded scene_fields(9)]
  from t have a: "length (chain_segments (chain1 (create GameConfig))) = 8"
    "length (chain_constraints (chain1 (create GameConfig))) = 9"
    "bodyA (chain_constraints (chain1 (create GameConfig)) ! 0) =
       Some (striker_body (striker1 (create GameConfig)))"
    "bodyB (chain_constraints (chain1 (create GameConfig)) ! 8) =
       Some (hammer_body (hammer1 (create GameConfig)))"
    by (simp_all add: n)
  from t have pos: "\<forall>i < 8. position (chain_segments (chain1 (create GameConfig)) ! i) =
      (900 + 100 * (real i + 1) / 9, 350)"
    by (simp add: n sp hp)
  from t have par: "\<forall>k \<le> 8.
      length_c (chain_constraints (chain1 (create GameConfig)) ! k) = 20 \<and>
      stiffness (chain_constraints (chain1 (create GameConfig)) ! k) = 7 / 10 \<and>
      damping (chain_constraints (chain1 (create GameConfig)) ! k) = 5 / 100"
    by (simp add: n)
  from t have ord: "\<forall>i < 8.
      bodyB (chain_constraints (chain1 (create GameConfig)) ! i) =
        Some (chain_segments (chain1 (create GameConfig)) ! i) \<and>
      bodyA (chain_constraints (chain1 (create GameConfig)) ! (i + 1)) =
        Some (chain_segments (chain1 (create GameConfig)) ! i)"
    by (simp add: n)
  from pos have p0: "position (chain_segments (chain1 (create GameConfig)) ! 0) =
      (900 + 100 * 1 / 9, 350)"
    and p7: "position (chain_segments (chain1 (create GameConfig)) ! 7) =
      (900 + 100 * 8 / 9, 350)"
    by simp_all
  from par have p4: "length_c (chain_constraints (chain1 (create GameConfig)) ! 4) = 20 \<and>
      stiffness (chain_constraints (chain1 (create GameConfig)) ! 4) = 7 / 10 \<and>
      damping (chain_constraints (chain1 (create GameConfig)) ! 4) = 5 / 100"
    by simp
  from ord have o0: "bodyB (chain_constraints (chain1 (create GameConfig)) ! 0) =
        Some (chain_segments (chain1 (create GameConfig)) ! 0) \<and>
      bodyA (chain_constraints (chain1 (create GameConfig)) ! 1) =
        Some (chain_segments (chain1 (create GameConfig)) ! 0)"
    by force
  from h a p0 p7 p4 o0 show ?thesis by simp
qed

subsection \<open>Collision filters\<close>



lemma goal_profile: "filterProfile (goal_body (Goal_new GameConfig side)) = (0x10, 1, 0, True, True)"
  by (simp add: Goal_new_def Let_def add_rectangle_def filterProfile_def GameConfig_def)

lemma puck_profile:
  "filterProfile (puck_body (Puck_new GameConfig x y)) = (1, 0xE, 0, False, False)"
  by (simp add: Puck_new_def add_circle_def filterProfile_def GameConfig_def)







subsection \<open>Goal detection\<close>

text \<open>
  The handler of \<^verbatim>\<open>collisionstart\<close> is right for every pair it is given: a pair of the
  puck and a goal sensor, in either order, makes it call \<^verbatim>\<open>onGoalScored\<close> exactly once,
  with that goal's side; any pair without the puck makes it call nothing.
\<close>

lemma pairGoals_puck_goal:
  assumes "label a = ''puck''"
  shows "label b = ''goal_left'' \<Longrightarrow> pairGoals (a, b) = [''left''] \<and> pairGoals (b, a) = [''left'']"
    and "label b = ''goal_right'' \<Longrightarrow>
         pairGoals (a, b) = [''right''] \<and> pairGoals (b, a) = [''right'']"
  using assms by (simp_all add: pairGoals_def)

lemma pairGoals_without_puck:
  "label a \<noteq> ''puck'' \<Longrightarrow> label b \<noteq> ''puck'' \<Longrightarrow> pairGoals (a, b) = []"
  by (simp add: pairGoals_def)

lemma puckAt_fields:
  "label (puckAt GameConfig q) = ''puck''"
  "filterProfile (puckAt GameConfig q) = (1, 0xE, 0, False, False)"
  using puck_profile[of "GAME_WIDTH GameConfig / 2" "GAME_HEIGHT GameConfig / 2"]
  by (simp_all add: puckAt_def setPosition_def scene_fields(4) filterProfile_def
      Puck_new_def add_circle_def)

lemma goal_fields:
  "label (goal_body (goalLeft (create GameConfig))) = ''goal_left''"
  "label (goal_body (goalRight (create GameConfig))) = ''goal_right''"
  "filterProfile (goal_body (goalLeft (create GameConfig))) = (0x10, 1, 0, True, True)"
  "filterProfile (goal_body (goalRight (create GameConfig))) = (0x10, 1, 0, True, True)"
  by (simp_all add: scene_fields(2,3) goal_profile)
     (simp_all add: Goal_new_def Let_def add_rectangle_def)

text \<open>
  C1 (the code departs from the claim). Take the scene as \<^verbatim>\<open>create()\<close> builds it and the
  puck at any point \<open>q\<close>, for instance inside a goal sensor. Given the pair of the puck
  and a goal, the handler calls \<^verbatim>\<open>onGoalScored\<close> once with that side, and the goal would
  count. But the puck's mask is \<open>STRIKER | HAMMER | WALL\<close> and the goal's category is
  \<open>GOAL\<close>: the engine's filter rule rejects the pair, so that of the overlapping pairs of
  the puck and the two goals none is reported, and the handler, run on what is reported,
  leaves the scene as it is. The puck entering a goal is not detected.
\<close>

theorem puck_goal_contact_not_reported:
  "pairGoals (puckAt GameConfig q, goal_body (goalLeft (create GameConfig))) = [''left''] \<and>
   pairGoals (goal_body (goalRight (create GameConfig)), puckAt GameConfig q) = [''right''] \<and>
   player2Score (collisionstart GameConfig
     [(puckAt GameConfig q, goal_body (goalLeft (create GameConfig)))] (create GameConfig)) = 1 \<and>
   maskBits (filter_of (puckAt GameConfig q)) AND
     category (filter_of (goal_body (goalLeft (create GameConfig)))) = 0 \<and>
   canCollide (filter_of (puckAt GameConfig q))
     (filter_of (goal_body (goalLeft (create GameConfig)))) = False \<and>
   canCollide (filter_of (puckAt GameConfig q))
     (filter_of (goal_body (goalRight (create GameConfig)))) = False \<and>
   reportedPairs
     [(puckAt GameConfig q, goal_body (goalLeft (create GameConfig))),
      (goal_body (goalLeft (create GameConfig)), puckAt GameConfig q),
      (puckAt GameConfig q, goal_body (goalRight (create GameConfig))),
      (goal_body (goalRight (create GameConfig)), puckAt GameConfig q)] = [] \<and>
   collisionstart GameConfig
     (reportedPairs
       [(puckAt GameConfig q, goal_body (goalLeft (create GameConfig))),
        (goal_body (goalLeft (create GameConfig)), puckAt GameConfig q),
        (puckAt GameConfig q, goal_body (goalRight (create GameConfig))),
        (goal_body (goalRight (create GameConfig)), puckAt GameConfig q)])
     (create GameConfig) = create GameConfig"
proof -
  let ?p = "puckAt GameConfig q"
  let ?l = "goal_body (goalLeft (create GameConfig))"
  let ?r = "goal_body (goalRight (create GameConfig))"
  have ev: "pairGoals (?p, ?l) = [''left'']" "pairGoals (?r, ?p) = [''right'']"
    by (simp_all add: pairGoals_def puckAt_fields goal_fields)
  have "collisionstart GameConfig [(?p, ?l)] (create GameConfig) =
      onGoalScored GameConfig ''left'' (create GameConfig)"
    by (simp add: collisionstart_def ev)
  then have sc: "player2Score (collisionstart GameConfig [(?p, ?l)] (create GameConfig)) = 1"
    by (simp add: onGoalScored_scoring create_fields)
  have f: "maskBits (filter_of ?p) = 0xE" "category (filter_of ?p) = 1" "group (filter_of ?p) = 0"
    "category (filter_of ?l) = 0x10" "maskBits (filter_of ?l) = 1" "group (filter_of ?l) = 0"
    "category (filter_of ?r) = 0x10" "maskBits (filter_of ?r) = 1" "group (filter_of ?r) = 0"
    using puckAt_fields(2)[of q] goal_fields(3,4) by (simp_all add: filterProfile_def)
  have cc: "maskBits (filter_of ?p) AND category (filter_of ?l) = 0"
    "canCollide (filter_of ?p) (filter_of ?l) = False"
    "canCollide (filter_of ?p) (filter_of ?r) = False"
    "canCollide (filter_of ?l) (filter_of ?p) = False"
    "canCollide (filter_of ?r) (filter_of ?p) = False"
    by (simp_all add: canCollide_def f)
  have rp: "reportedPairs [(?p, ?l), (?l, ?p), (?p, ?r), (?r, ?p)] = []"
    by (simp add: reportedPairs_def detects_def cc)
  have "collisionstart GameConfig [] (create GameConfig) = create GameConfig"
    by (simp add: collisionstart_def)
  with ev sc cc rp show ?thesis by simp
qed

subsection \<open>The striker without input\<close>




end
